theory Spec2Isabelle
  imports Complex_Main "HOL-Library.Log_Nat"
begin

section \<open>JavaScript values\<close>

text \<open>
  The component computes with JavaScript numbers (IEEE 754 doubles) in one place, the
  scroll synchronisation. A number is modelled by its sign and its magnitude, so that
  both zeros, both infinities and NaN are values of the model, and a finite magnitude is
  a rational number. In \<open>Number s m\<close> the sign \<open>s\<close> is \<open>True\<close> for a negative number,
  and a finite magnitude is never negative.
\<close>

datatype magnitude = Finite rat | Infinity

datatype jsnum = NaN | Number bool magnitude

text \<open>
  The result of an operation is the exact result rounded to the nearest double, a tie
  going to the double whose last bit is zero. \<open>half_even\<close> rounds to the nearest integer
  in that way, and \<open>ilog2 x\<close> is the exponent of a positive \<open>x\<close>: the greatest \<open>e\<close>
  with \<open>2 powi e \<le> x\<close>.
\<close>

definition half_even :: "rat \<Rightarrow> int" where
  "half_even y =
     (let f = \<lfloor>y\<rfloor>; d = y - of_int f
      in if d < 1 / 2 then f else if 1 / 2 < d then f + 1 else if even f then f else f + 1)"

definition ilog2 :: "rat \<Rightarrow> int" where
  "ilog2 x =
     (let (p, q) = quotient_of x; e = bitlen p - bitlen q
      in if 2 powi e \<le> x then e else e - 1)"

text \<open>
  \<open>round_double x\<close> for \<open>x \<ge> 0\<close>: a double has 53 significant bits, so the doubles
  around \<open>x\<close> are the multiples of \<open>2 powi (e - 52)\<close>, where \<open>e\<close> is the exponent of
  \<open>x\<close>, or -1022 if that is greater (the subnormal numbers). A result of \<open>2 powi 1024\<close>
  or more is the infinity, and a result of zero is a zero.
\<close>

definition round_double :: "rat \<Rightarrow> magnitude" where
  "round_double x =
     (if x = 0 then Finite 0
      else let e = max (ilog2 x) (- 1022); q = 2 powi (e - 52);
               r = of_int (half_even (x / q)) * q
           in if 2 powi 1024 \<le> r then Infinity else Finite r)"

text \<open>The quotient and the product of two magnitudes; \<open>None\<close> is the invalid operation.\<close>

fun mag_div :: "magnitude \<Rightarrow> magnitude \<Rightarrow> magnitude option" where
  "mag_div (Finite a) (Finite b) =
     (if b = 0 then (if a = 0 then None else Some Infinity)
      else Some (round_double (a / b)))"
| "mag_div (Finite a) Infinity = Some (Finite 0)"
| "mag_div Infinity (Finite b) = Some Infinity"
| "mag_div Infinity Infinity = None"

fun mag_mul :: "magnitude \<Rightarrow> magnitude \<Rightarrow> magnitude option" where
  "mag_mul (Finite a) (Finite b) = Some (round_double (a * b))"
| "mag_mul (Finite a) Infinity = (if a = 0 then None else Some Infinity)"
| "mag_mul Infinity (Finite b) = (if b = 0 then None else Some Infinity)"
| "mag_mul Infinity Infinity = Some Infinity"

text \<open>JavaScript \<open>x / y\<close> and \<open>x * y\<close>: NaN is contagious, the sign is the exclusive or.\<close>

fun js_div :: "jsnum \<Rightarrow> jsnum \<Rightarrow> jsnum" where
  "js_div NaN y = NaN"
| "js_div (Number s a) NaN = NaN"
| "js_div (Number s a) (Number t b) =
     (case mag_div a b of None \<Rightarrow> NaN | Some m \<Rightarrow> Number (s \<noteq> t) m)"

fun js_mul :: "jsnum \<Rightarrow> jsnum \<Rightarrow> jsnum" where
  "js_mul NaN y = NaN"
| "js_mul (Number s a) NaN = NaN"
| "js_mul (Number s a) (Number t b) =
     (case mag_mul a b of None \<Rightarrow> NaN | Some m \<Rightarrow> Number (s \<noteq> t) m)"

text \<open>
  \<open>scrollHeight\<close>, \<open>offsetHeight\<close> and \<open>clientHeight\<close> of a DOM element are integers
  of 32 bits (\<open>long\<close>). The number of an integer is the nearest double, which is the
  integer itself up to \<open>2 ^ 53\<close>; a zero difference is the positive zero.
\<close>

definition js_of_int :: "int \<Rightarrow> jsnum" where
  "js_of_int i = Number (i < 0) (round_double (of_int \<bar>i\<bar>))"

definition js_sub_int :: "int \<Rightarrow> int \<Rightarrow> jsnum" where
  "js_sub_int a b = js_of_int (a - b)"

definition is_long :: "int \<Rightarrow> bool" where
  "is_long i = (- (2 ^ 31) \<le> i \<and> i < 2 ^ 31)"

definition is_finite :: "jsnum \<Rightarrow> bool" where
  "is_finite x = (case x of NaN \<Rightarrow> False | Number s Infinity \<Rightarrow> False | Number s (Finite r) \<Rightarrow> True)"

text \<open>Truthiness of an optional boolean and of an optional string.\<close>

definition truthy_bool :: "bool option \<Rightarrow> bool" where
  "truthy_bool b = (case b of None \<Rightarrow> False | Some v \<Rightarrow> v)"

definition truthy_str :: "string option \<Rightarrow> bool" where
  "truthy_str s = (case s of None \<Rightarrow> False | Some v \<Rightarrow> v \<noteq> [])"

text \<open>\<open>mdStr || ''\<close> on an optional string.\<close>

definition or_empty :: "string option \<Rightarrow> string" where
  "or_empty s = (if truthy_str s then the s else [])"

text \<open>The conversion to a string of a template literal and of \<open>RegExp.test\<close>.\<close>

definition str :: "string option \<Rightarrow> string" where
  "str s = (case s of None \<Rightarrow> ''undefined'' | Some v \<Rightarrow> v)"

text \<open>\<open>contains sub s\<close>: the regular expression \<open>/sub/\<close>, for a literal \<open>sub\<close>, matches \<open>s\<close>.\<close>

fun contains :: "string \<Rightarrow> string \<Rightarrow> bool" where
  "contains sub [] = (sub = [])"
| "contains sub (c # cs) = (take (length sub) (c # cs) = sub \<or> contains sub cs)"

section \<open>The collaborators of the component\<close>

text \<open>
  Modelled from the spec: the declarations of \<open>ICommand\<close>, \<open>CommandOrchestrator\<close>,
  \<open>TextArea\<close> and \<open>MarkdownPreview\<close> are imported by \<open>MDEditor.tsx\<close> from modules that
  are not part of the sources. Each is modelled with the members \<open>MDEditor.tsx\<close> reads,
  and a call of one of their methods is recorded as an effect.
\<close>

datatype 'a RefObject = Ref (current: "'a option")

text \<open>
  A DOM node is known by its identity; \<open>e.target === textarea\<close> compares identities.
  The component reads \<open>scrollHeight\<close>, \<open>offsetHeight\<close> and \<open>scrollTop\<close> of a pane.
  It does not read \<open>clientHeight\<close>, the height of the box without its borders and its
  horizontal scrollbar, which \<open>offsetHeight\<close> includes: the browser lets \<open>scrollTop\<close>
  go from 0 to \<open>scrollHeight - clientHeight\<close>.
\<close>

type_synonym node_id = nat

record HTMLDivElement =
  node :: node_id
  scrollHeight :: int
  offsetHeight :: int
  clientHeight :: int
  scrollTop :: jsnum

text \<open>
  A member that the code tests before use (\<open>warp\<close>, \<open>mdp\<close>) or reads without a test
  (\<open>text\<close>) may be undefined: \<open>None\<close>.
\<close>

record TextArea =
  warp :: "HTMLDivElement RefObject option"
  text' :: "node_id RefObject option"

record MarkdownPreview =
  mdp :: "HTMLDivElement RefObject option"

datatype ICommand = ICommand (keyCommand: string) (command_value: "string option")

datatype CommandOrchestrator = TextAreaCommandOrchestrator "node_id option"

section \<open>Props and state\<close>

datatype css_height = HeightNumber jsnum | HeightString string

text \<open>
  \<open>MDEditorState\<close> has the four fields of the source. \<open>MDEditorProps\<close> has fields of
  the same names and types; it is declared as an extension of the state record so that
  both keep the names of the source. The props that the component only hands on to its
  children (\<open>autoFocus\<close>, \<open>previewOptions\<close>, \<open>textareaProps\<close>, \<open>tabSize\<close>, \<open>commands\<close>,
  \<open>name\<close>, other HTML attributes) are left out. The callback \<open>onChange\<close> is known by
  an identifier. The field \<open>value\<close> of the source is \<open>value'\<close> here, and the member
  \<open>text\<close> of the text area is \<open>text'\<close>, since both words are reserved.
\<close>

record MDEditorState =
  height :: "css_height option"
  preview :: "string option"
  fullscreen :: "bool option"
  value' :: "string option"

type_synonym callback_id = nat

record MDEditorProps = MDEditorState +
  onChange :: "callback_id option"
  visiableDragbar :: "bool option"
  maxHeight :: "jsnum option"
  minHeight :: "jsnum option"
  hideToolbar :: "bool option"
  prefixCls :: "string option"
  className :: "string option"

text \<open>
  \<open>static defaultProps\<close>: React replaces a prop that is undefined by its default
  whenever it creates the element, at mount and at every update.
\<close>

definition dflt :: "'a \<Rightarrow> 'a option \<Rightarrow> 'a option" where
  "dflt d x = (case x of None \<Rightarrow> Some d | Some v \<Rightarrow> Some v)"

definition defaultProps :: "MDEditorProps \<Rightarrow> MDEditorProps" where
  "defaultProps p = p
     \<lparr> value' := dflt [] (value' p),
       prefixCls := dflt ''w-md-editor'' (prefixCls p),
       height := dflt (HeightNumber (js_of_int 200)) (height p),
       minHeight := dflt (js_of_int 100) (minHeight p),
       maxHeight := dflt (js_of_int 1200) (maxHeight p),
       visiableDragbar := dflt True (visiableDragbar p),
       preview := dflt ''live'' (preview p),
       fullscreen := dflt False (fullscreen p) \<rparr>"

section \<open>The component instance and its environment\<close>

datatype error = TypeError

text \<open>What the component does to its collaborators, in the order it does it.\<close>

datatype effect =
    RenderHTML "string option"
  | OnChange callback_id "string option"
  | ExecuteCommand CommandOrchestrator ICommand
  | SetScrollTop node_id jsnum

text \<open>
  \<open>setState\<close> inside a lifecycle method or an event handler of React does not change
  \<open>this.state\<close> at once: the partial state and its callback are queued, and applied
  when the method has returned.
\<close>

datatype patch =
    SetHeight "css_height option"
  | SetPreview "string option"
  | SetFullscreen "bool option"
  | SetValue "string option"

datatype thunk = HandleChange "string option"

text \<open>
  The instance, with the part of the page it writes to. The refs \<open>this.preview\<close> and
  \<open>this.textarea\<close> are the fields \<open>previewRef\<close> and \<open>textareaRef\<close> (the state has
  a field \<open>preview\<close> already); \<open>commandOrchestrator\<close> is undefined until
  \<open>componentDidMount\<close> sets it; \<open>pending\<close> is the queue of \<open>setState\<close>;
  \<open>body_overflow\<close> is \<open>document.body.style.overflow\<close>; \<open>effects\<close> is the log of
  the calls made so far, the oldest first.
\<close>

record MDEditor =
  props :: MDEditorProps
  state :: MDEditorState
  previewRef :: "MarkdownPreview RefObject"
  textareaRef :: "TextArea RefObject"
  commandOrchestrator :: "CommandOrchestrator option"
  leftScroll :: bool
  pending :: "(patch \<times> thunk option) list"
  body_overflow :: string
  effects :: "effect list"

text \<open>
  A method returns or throws; what it did before it threw stays done, so both outcomes
  carry the component.
\<close>

datatype outcome = Returned MDEditor | Threw error MDEditor

fun final :: "outcome \<Rightarrow> MDEditor" where
  "final (Returned c) = c"
| "final (Threw e c) = c"

definition emit :: "effect \<Rightarrow> MDEditor \<Rightarrow> MDEditor" where
  "emit e c = c\<lparr>effects := effects c @ [e]\<rparr>"

definition setState :: "patch \<Rightarrow> thunk option \<Rightarrow> MDEditor \<Rightarrow> MDEditor" where
  "setState p k c = c\<lparr>pending := pending c @ [(p, k)]\<rparr>"

fun apply_patch :: "patch \<Rightarrow> MDEditorState \<Rightarrow> MDEditorState" where
  "apply_patch (SetHeight h) s = s\<lparr>height := h\<rparr>"
| "apply_patch (SetPreview p) s = s\<lparr>preview := p\<rparr>"
| "apply_patch (SetFullscreen f) s = s\<lparr>fullscreen := f\<rparr>"
| "apply_patch (SetValue v) s = s\<lparr>value' := v\<rparr>"

section \<open>The methods of \<open>MDEditor\<close>\<close>

text \<open>The constructor; the second argument is the overflow style of the page.\<close>

definition new_MDEditor :: "MDEditorProps \<Rightarrow> string \<Rightarrow> MDEditor" where
  "new_MDEditor p page_overflow =
     \<lparr> props = p,
       state = \<lparr> height = height p, preview = preview p,
                 fullscreen = fullscreen p, value' = value' p \<rparr>,
       previewRef = Ref None,
       textareaRef = Ref None,
       commandOrchestrator = None,
       leftScroll = False,
       pending = [],
       body_overflow = page_overflow,
       effects = [] \<rparr>"

text \<open>
  \<open>handleChange\<close>: \<open>this.preview.current!.renderHTML(mdStr)\<close> throws a TypeError when
  the ref is null; \<open>onChange\<close> is read from the current props.
\<close>

definition handleChange :: "string option \<Rightarrow> MDEditor \<Rightarrow> outcome" where
  "handleChange mdStr c =
     (case current (previewRef c) of
        None \<Rightarrow> Threw TypeError c
      | Some p \<Rightarrow>
          (let c1 = emit (RenderHTML mdStr) c in
           case onChange (props c) of
             None \<Rightarrow> Returned c1
           | Some cb \<Rightarrow> Returned (emit (OnChange cb (Some (or_empty mdStr))) c1)))"

text \<open>
  \<open>componentDidMount\<close>: \<open>this.textarea.current!.text.current || null\<close> throws a
  TypeError when the ref of the text area is null or has no member \<open>text\<close>.
\<close>

definition componentDidMount :: "MDEditor \<Rightarrow> outcome" where
  "componentDidMount c =
     (case handleChange (value' (state c)) c of
        Threw e c1 \<Rightarrow> Threw e c1
      | Returned c1 \<Rightarrow>
          (case current (textareaRef c1) of
             None \<Rightarrow> Threw TypeError c1
           | Some ta \<Rightarrow>
               (case text' ta of
                  None \<Rightarrow> Threw TypeError c1
                | Some r \<Rightarrow>
                    Returned (c1\<lparr>commandOrchestrator :=
                      Some (TextAreaCommandOrchestrator (current r))\<rparr>))))"

definition UNSAFE_componentWillReceiveProps :: "MDEditorProps \<Rightarrow> MDEditor \<Rightarrow> MDEditor" where
  "UNSAFE_componentWillReceiveProps nextProps c =
     (let c1 = (if preview nextProps \<noteq> preview (props c)
                then setState (SetPreview (preview nextProps)) None c else c);
          c2 = (if fullscreen nextProps \<noteq> fullscreen (props c)
                then setState (SetFullscreen (fullscreen nextProps)) None c1 else c1)
      in if value' nextProps \<noteq> value' (props c)
         then setState (SetValue (value' nextProps))
                (Some (HandleChange (value' nextProps))) c2
         else c2)"

text \<open>
  \<open>handleScroll\<close>; its argument is \<open>e.target\<close>. An assignment to \<open>scrollTop\<close> is
  recorded with the value assigned; what the browser makes of that value is not part of
  the component.
\<close>

definition handleScroll :: "node_id \<Rightarrow> MDEditor \<Rightarrow> MDEditor" where
  "handleScroll e_target c =
     (case current (textareaRef c) of None \<Rightarrow> c | Some ta \<Rightarrow>
      case current (previewRef c) of None \<Rightarrow> c | Some pv \<Rightarrow>
      case mdp pv of None \<Rightarrow> c | Some mdp_ref \<Rightarrow>
      case warp ta of None \<Rightarrow> c | Some warp_ref \<Rightarrow>
      case current warp_ref of None \<Rightarrow> c | Some textarea \<Rightarrow>
      case current mdp_ref of None \<Rightarrow> c | Some preview_el \<Rightarrow>
        (let scale = js_div (js_sub_int (scrollHeight textarea) (offsetHeight textarea))
                            (js_sub_int (scrollHeight preview_el) (offsetHeight preview_el));
             c1 = (if e_target = node textarea \<and> leftScroll c
                   then emit (SetScrollTop (node preview_el)
                                (js_div (scrollTop textarea) scale)) c
                   else c)
         in if e_target = node preview_el \<and> \<not> leftScroll c
            then emit (SetScrollTop (node textarea)
                         (js_mul (scrollTop preview_el) scale)) c1
            else c1))"

text \<open>
  \<open>handleCommand\<close>: \<open>this.commandOrchestrator.executeCommand\<close> throws a TypeError
  while the orchestrator is undefined, that is before \<open>componentDidMount\<close> has set it.
\<close>

definition handleCommand :: "ICommand \<Rightarrow> MDEditor \<Rightarrow> outcome" where
  "handleCommand command c =
     (let c1 = (if keyCommand command = ''preview''
                then setState (SetPreview (command_value command)) None c else c);
          c2 = (if keyCommand command = ''fullscreen''
                then (setState (SetFullscreen (Some (\<not> truthy_bool (fullscreen (state c1)))))
                        None c1)
                     \<lparr>body_overflow :=
                        (if truthy_bool (fullscreen (state c1)) then ''initial'' else ''hidden'')\<rparr>
                else c1)
      in case commandOrchestrator c2 of
           None \<Rightarrow> Threw TypeError c2
         | Some orch \<Rightarrow> Returned (emit (ExecuteCommand orch command) c2))"

text \<open>
  The callbacks that \<open>render\<close> gives to the text area for \<open>onMouseOver\<close> and
  \<open>onMouseLeave\<close>, and to the drag bar for \<open>onChange\<close>.
\<close>

definition onMouseOver :: "MDEditor \<Rightarrow> MDEditor" where
  "onMouseOver c = c\<lparr>leftScroll := True\<rparr>"

definition onMouseLeave :: "MDEditor \<Rightarrow> MDEditor" where
  "onMouseLeave c = c\<lparr>leftScroll := False\<rparr>"

definition dragBar_onChange :: "jsnum \<Rightarrow> MDEditor \<Rightarrow> MDEditor" where
  "dragBar_onChange newHeight c = setState (SetHeight (Some (HeightNumber newHeight))) None c"

text \<open>
  \<open>render\<close>: the classes of the root element and the children it mounts. The inline
  styles and the props handed to the children are left out.
\<close>

record rendered =
  cls :: "string list"
  has_Toolbar :: bool
  has_TextArea :: bool
  has_MarkdownPreview :: bool
  has_DragBar :: bool

definition class_if :: "bool \<Rightarrow> string \<Rightarrow> string list" where
  "class_if b name = (if b then [name] else [])"

definition render :: "MDEditor \<Rightarrow> rendered" where
  "render c =
     (let p = props c; s = state c in
      \<lparr> cls = class_if (truthy_str (className p)) (str (className p))
              @ class_if (truthy_str (prefixCls p)) (str (prefixCls p))
              @ class_if (truthy_str (preview s)) (str (prefixCls p) @ ''-show-'' @ str (preview s))
              @ class_if (truthy_bool (fullscreen s)) (str (prefixCls p) @ ''-fullscreen''),
        has_Toolbar = (\<not> truthy_bool (hideToolbar p)),
        has_TextArea = (contains ''edit'' (str (preview s)) \<or> contains ''live'' (str (preview s))),
        has_MarkdownPreview = True,
        has_DragBar = (truthy_bool (visiableDragbar p) \<and> preview s \<noteq> Some ''preview''
                       \<and> \<not> truthy_bool (fullscreen s)) \<rparr>)"

section \<open>React around the component\<close>

text \<open>
  When a lifecycle method or an event handler has returned, React applies the queued
  partial states in order and then runs their callbacks in order. The render that
  follows, and what it does to the refs, is not part of \<open>flush\<close>.
\<close>

fun run_callbacks :: "thunk list \<Rightarrow> MDEditor \<Rightarrow> outcome" where
  "run_callbacks [] c = Returned c"
| "run_callbacks (HandleChange v # ks) c =
     (case handleChange v c of
        Threw e c1 \<Rightarrow> Threw e c1
      | Returned c1 \<Rightarrow> run_callbacks ks c1)"

definition flush :: "MDEditor \<Rightarrow> outcome" where
  "flush c =
     run_callbacks (List.map_filter snd (pending c))
       (c\<lparr>state := fold apply_patch (map fst (pending c)) (state c), pending := []\<rparr>)"

text \<open>A handler that throws still has its queued updates applied, and the error goes on.\<close>

definition batched :: "outcome \<Rightarrow> outcome" where
  "batched r = (case r of Returned c \<Rightarrow> flush c | Threw e c \<Rightarrow> Threw e (final (flush c)))"

text \<open>
  Mounting: the props with their defaults, the constructor, the first render, the refs of
  the children that were rendered, and \<open>componentDidMount\<close>.
\<close>

definition mount :: "MDEditorProps \<Rightarrow> TextArea \<Rightarrow> MarkdownPreview \<Rightarrow> string \<Rightarrow> outcome" where
  "mount p ta mp page_overflow =
     (let c = new_MDEditor (defaultProps p) page_overflow;
          v = render c;
          c1 = c\<lparr> previewRef := Ref (if has_MarkdownPreview v then Some mp else None),
                  textareaRef := Ref (if has_TextArea v then Some ta else None) \<rparr>
      in batched (componentDidMount c1))"

text \<open>An update of the props by the parent: the new props are current when the callbacks run.\<close>

definition receiveProps :: "MDEditorProps \<Rightarrow> MDEditor \<Rightarrow> outcome" where
  "receiveProps p c =
     (let nextProps = defaultProps p;
          c1 = UNSAFE_componentWillReceiveProps nextProps c
      in flush (c1\<lparr>props := nextProps\<rparr>))"

text \<open>A click in the toolbar, a scroll event, a drag of the bar, an edit in the text area.\<close>

definition onCommand :: "ICommand \<Rightarrow> MDEditor \<Rightarrow> outcome" where
  "onCommand command c = batched (handleCommand command c)"

definition onDrag :: "jsnum \<Rightarrow> MDEditor \<Rightarrow> outcome" where
  "onDrag newHeight c = flush (dragBar_onChange newHeight c)"

definition onEdit :: "string option \<Rightarrow> MDEditor \<Rightarrow> outcome" where
  "onEdit mdStr c = batched (handleChange mdStr c)"

text \<open>
  When a render no longer has the text area, React unmounts it and sets its ref to null.
  (The preview is in every render.)
\<close>

definition detachRefs :: "MDEditor \<Rightarrow> MDEditor" where
  "detachRefs c =
     c\<lparr>textareaRef := (if has_TextArea (render c) then textareaRef c else Ref None)\<rparr>"

section \<open>Notions of the specification\<close>

text \<open>
  The scrollable range of a pane, as \<open>handleScroll\<close> computes it:
  \<open>scrollHeight - offsetHeight\<close>.
\<close>

definition scrollable_range :: "HTMLDivElement \<Rightarrow> jsnum" where
  "scrollable_range el = js_sub_int (scrollHeight el) (offsetHeight el)"

text \<open>
  The maximum offset of a pane: the browser keeps \<open>scrollTop\<close> between 0 and
  \<open>scrollHeight - clientHeight\<close>. It is the scrollable range of the code where the
  pane has no border and no horizontal scrollbar.
\<close>

definition max_offset :: "HTMLDivElement \<Rightarrow> int" where
  "max_offset el = scrollHeight el - clientHeight el"

text \<open>
  Within rounding tolerance: \<open>close_to v i\<close> says that the number \<open>v\<close> is finite, has
  the sign of the integer \<open>i\<close> and differs from it by at most \<open>\<bar>i\<bar> / 2 ^ 51\<close>, which
  is four units in the last place of a double.
\<close>

definition close_to :: "jsnum \<Rightarrow> int \<Rightarrow> bool" where
  "close_to v i =
     (case v of
        NaN \<Rightarrow> False
      | Number s m \<Rightarrow>
          (case m of
             Infinity \<Rightarrow> False
           | Finite r \<Rightarrow> s = (i < 0) \<and> \<bar>r - of_int \<bar>i\<bar>\<bar> \<le> of_int \<bar>i\<bar> / 2 ^ 51))"

text \<open>Two clicks on the same command of the toolbar, one after the other.\<close>

definition twice :: "ICommand \<Rightarrow> MDEditor \<Rightarrow> MDEditor" where
  "twice command c = final (onCommand command (final (onCommand command c)))"

section \<open>Example components\<close>

text \<open>
  An editor mounted with no prop but a change callback: a text area of node 1 with
  600 pixels to scroll, scrolled to the end, and a preview of node 2 with 300 pixels to
  scroll, scrolled to the end, on a page with no overflow style.
\<close>

definition example_props :: MDEditorProps where
  "example_props =
     \<lparr> height = None, preview = None, fullscreen = None, value' = None,
       onChange = Some 0, visiableDragbar = None, maxHeight = None, minHeight = None,
       hideToolbar = None, prefixCls = None, className = None \<rparr>"

definition example_textarea :: TextArea where
  "example_textarea =
     \<lparr> warp = Some (Ref (Some \<lparr> node = 1, scrollHeight = 800, offsetHeight = 200,
                                  clientHeight = 200, scrollTop = js_of_int 600 \<rparr>)),
       text' = Some (Ref (Some 3)) \<rparr>"

definition example_preview :: MarkdownPreview where
  "example_preview =
     \<lparr> mdp = Some (Ref (Some \<lparr> node = 2, scrollHeight = 500, offsetHeight = 200,
                                 clientHeight = 200, scrollTop = js_of_int 300 \<rparr>)) \<rparr>"

definition example_mounted :: MDEditor where
  "example_mounted = final (mount example_props example_textarea example_preview [])"

text \<open>
  The example editor after a click on the command \<open>preview\<close>: the text area is
  unmounted.
\<close>

definition example_previewing :: MDEditor where
  "example_previewing =
     detachRefs (final (onCommand (ICommand ''preview'' (Some ''preview'')) example_mounted))"

text \<open>
  A text area whose wrapper has borders of one pixel: its content is 102 pixels high and
  its box is 102 pixels high with the borders and 100 without, so that
  \<open>scrollHeight - offsetHeight\<close> is zero although the content scrolls by two pixels. It
  is scrolled to the end, and the pointer is over it.
\<close>

definition bordered_textarea :: TextArea where
  "bordered_textarea =
     \<lparr> warp = Some (Ref (Some \<lparr> node = 1, scrollHeight = 102, offsetHeight = 102,
                                  clientHeight = 100, scrollTop = js_of_int 2 \<rparr>)),
       text' = Some (Ref (Some 3)) \<rparr>"

definition example_bordered :: MDEditor where
  "example_bordered =
     onMouseOver (final (mount example_props bordered_textarea example_preview []))"

text \<open>The example editor given the mode \<open>preview\<close> from the start.\<close>

definition example_initial_preview :: outcome where
  "example_initial_preview =
     mount (example_props\<lparr>preview := Some ''preview''\<rparr>) example_textarea example_preview []"

text \<open>
  A preview with borders of one pixel, over a box of 200 pixels and a content of 500:
  its maximum offset is 300 and the range that the code computes is 298. The text area
  beside it has no border and 596 pixels to scroll, and is scrolled to the end with the
  pointer over it.
\<close>

definition bordered_mdp :: HTMLDivElement where
  "bordered_mdp =
     \<lparr> node = 2, scrollHeight = 500, offsetHeight = 202, clientHeight = 200,
       scrollTop = js_of_int 0 \<rparr>"

definition scrolled_warp :: HTMLDivElement where
  "scrolled_warp =
     \<lparr> node = 1, scrollHeight = 796, offsetHeight = 200, clientHeight = 200,
       scrollTop = js_of_int 596 \<rparr>"

definition example_bordered_preview :: MDEditor where
  "example_bordered_preview =
     onMouseOver (final (mount example_props
       \<lparr> warp = Some (Ref (Some scrolled_warp)), text' = Some (Ref (Some 3)) \<rparr>
       \<lparr> mdp = Some (Ref (Some bordered_mdp)) \<rparr> []))"

text \<open>
  A text area with one pixel to scroll beside a preview with 49, both scrolled to the
  end, with the pointer over the text area.
\<close>

definition short_warp :: HTMLDivElement where
  "short_warp =
     \<lparr> node = 1, scrollHeight = 201, offsetHeight = 200, clientHeight = 200,
       scrollTop = js_of_int 1 \<rparr>"

definition short_mdp :: HTMLDivElement where
  "short_mdp =
     \<lparr> node = 2, scrollHeight = 249, offsetHeight = 200, clientHeight = 200,
       scrollTop = js_of_int 49 \<rparr>"

definition example_short :: MDEditor where
  "example_short =
     onMouseOver (final (mount example_props
       \<lparr> warp = Some (Ref (Some short_warp)), text' = Some (Ref (Some 3)) \<rparr>
       \<lparr> mdp = Some (Ref (Some short_mdp)) \<rparr> []))"

section \<open>Rounding to a double\<close>

lemma half_even_int [simp]: "half_even (of_int k) = k"
  by (simp add: half_even_def)

lemma half_even_near: "\<bar>of_int (half_even y) - y\<bar> \<le> 1 / 2"
proof -
  have "of_int \<lfloor>y\<rfloor> \<le> y" "y < of_int \<lfloor>y\<rfloor> + 1" by linarith+
  then show ?thesis by (auto simp add: half_even_def Let_def)
qed

lemma bitlen_powi:
  assumes "0 < (n::int)"
  shows "(2::rat) powi (bitlen n - 1) \<le> of_int n" and "of_int n < (2::rat) powi (bitlen n)"
proof -
  from bitlen_bounds [OF assms]
  have lo: "2 ^ nat (bitlen n - 1) \<le> n" and hi: "n < 2 ^ nat (bitlen n)"
    by simp_all
  have pos: "1 \<le> bitlen n" using assms by (auto simp: bitlen_alt_def)
  have "(2::rat) powi (bitlen n - 1) = 2 ^ nat (bitlen n - 1)"
    using pos by (simp add: power_int_def)
  also have "\<dots> = of_int (2 ^ nat (bitlen n - 1))" by simp
  also have "\<dots> \<le> of_int n" using lo by (simp only: of_int_le_iff)
  finally show "(2::rat) powi (bitlen n - 1) \<le> of_int n" .
  have "(of_int n :: rat) < of_int (2 ^ nat (bitlen n))" using hi by (simp only: of_int_less_iff)
  also have "\<dots> = 2 ^ nat (bitlen n)" by simp
  also have "\<dots> = (2::rat) powi (bitlen n)" using pos by (simp add: power_int_def)
  finally show "of_int n < (2::rat) powi (bitlen n)" .
qed

text \<open>\<open>ilog2\<close> is the exponent.\<close>

lemma ilog2_bounds:
  assumes "0 < x"
  shows "2 powi (ilog2 x) \<le> x \<and> x < 2 powi (ilog2 x + 1)"
proof -
  obtain p q where pq: "quotient_of x = (p, q)" by (cases "quotient_of x")
  then have q: "0 < q" and x: "x = of_int p / of_int q"
    using quotient_of_denom_pos quotient_of_div by blast+
  have p: "0 < p" using assms q x by (simp add: zero_less_divide_iff)
  note bp = bitlen_powi [OF p] and bq = bitlen_powi [OF q]
  let ?e = "bitlen p - bitlen q"
  have "x < 2 powi (bitlen p) / 2 powi (bitlen q - 1)"
    unfolding x using bp(2) bq(1) p q
    by (intro frac_less) auto
  also have "\<dots> = 2 powi (?e + 1)"
    by (simp add: power_int_diff [symmetric] algebra_simps)
  finally have hi: "x < 2 powi (?e + 1)" .
  have "2 powi (bitlen p - 1) / 2 powi (bitlen q) < x"
    unfolding x using bp(1) bq(2) p q
    by (intro frac_less2) (auto intro: less_imp_le)
  moreover have "2 powi (bitlen p - 1) / (2::rat) powi (bitlen q) = 2 powi (?e - 1)"
    by (simp add: power_int_diff [symmetric] algebra_simps)
  ultimately have lo: "2 powi (?e - 1) < x" by simp
  show ?thesis
    using hi lo by (auto simp add: ilog2_def pq Let_def)
qed

text \<open>
  A number in the range of the normal doubles is rounded to a finite double, and the
  relative error is at most \<open>1 / 2 ^ 53\<close>.
\<close>

lemma round_double_near:
  assumes lo: "2 powi (- 1022) \<le> x" and hi: "x < 2 powi 1023"
  shows "\<exists>r. round_double x = Finite r \<and> x * (1 - 1 / 2 ^ 53) \<le> r \<and>
             r \<le> x * (1 + 1 / 2 ^ 53)"
proof -
  have "(0::rat) < 2 powi (- 1022)" by simp
  with lo have x: "0 < x" by linarith
  define e where "e = ilog2 x"
  from ilog2_bounds [OF x] have e: "2 powi e \<le> x" "x < 2 powi (e + 1)"
    by (simp_all add: e_def)
  have e_lo: "- 1022 \<le> e"
  proof (rule ccontr)
    assume "\<not> - 1022 \<le> e"
    then have "e + 1 \<le> - 1022" by simp
    then have "(2::rat) powi (e + 1) \<le> 2 powi (- 1022)"
      by (intro power_int_increasing) simp_all
    with e(2) lo show False by linarith
  qed
  define q where "q = (2::rat) powi (e - 52)"
  define n where "n = half_even (x / q)"
  define r where "r = of_int n * q"
  have q: "0 < q" by (simp add: q_def)
  have half: "q / 2 \<le> x / 2 ^ 53"
  proof -
    have "(2::rat) powi e = 2 powi ((e - 52) + 52)" by simp
    also have "\<dots> = 2 powi (e - 52) * 2 powi 52" by (rule power_int_add) simp
    also have "\<dots> = q * 2 ^ 52" by (simp add: q_def)
    finally have "q * 2 ^ 52 \<le> x" using e(1) by simp
    then show ?thesis by (simp add: field_simps)
  qed
  have "\<bar>of_int n - x / q\<bar> \<le> 1 / 2" unfolding n_def by (rule half_even_near)
  then have "\<bar>of_int n - x / q\<bar> * q \<le> 1 / 2 * q"
    using q by (intro mult_right_mono) simp_all
  moreover have "\<bar>of_int n - x / q\<bar> * q = \<bar>r - x\<bar>"
  proof -
    have eq: "(of_int n - x / q) * q = r - x"
      using q by (simp add: r_def left_diff_distrib)
    have "\<bar>of_int n - x / q\<bar> * q = \<bar>of_int n - x / q\<bar> * \<bar>q\<bar>"
      using q by simp
    also have "\<dots> = \<bar>(of_int n - x / q) * q\<bar>" by (rule abs_mult [symmetric])
    finally show ?thesis by (simp only: eq)
  qed
  ultimately have near: "\<bar>r - x\<bar> \<le> x / 2 ^ 53" using half by simp
  then have "r - x \<le> x / 2 ^ 53" "x - r \<le> x / 2 ^ 53" by linarith+
  then have bounds: "x * (1 - 1 / 2 ^ 53) \<le> r" "r \<le> x * (1 + 1 / 2 ^ 53)"
    by (simp_all add: algebra_simps)
  have "r \<le> x * 2" using bounds(2) x by (simp add: algebra_simps)
  also have "\<dots> < 2 powi 1023 * 2" using hi by simp
  also have "\<dots> = 2 powi 1024" by simp
  finally have fin: "\<not> 2 powi 1024 \<le> r" by simp
  have "round_double x = Finite r"
    using x e_lo fin
    by (simp add: round_double_def Let_def e_def [symmetric] max_def q_def [symmetric]
        n_def [symmetric] r_def [symmetric])
  with bounds show ?thesis by blast
qed

text \<open>An integer below \<open>2 ^ 53\<close> is a double.\<close>

lemma round_double_int:
  assumes "0 \<le> i" and "i < 2 ^ 53"
  shows "round_double (of_int i) = Finite (of_int i)"
proof (cases "i = 0")
  case True
  then show ?thesis by (simp add: round_double_def)
next
  case False
  with assms have i: "0 < i" by simp
  define x where "x = (of_int i :: rat)"
  have x: "0 < x" "1 \<le> x" "x < 2 ^ 53"
    using i assms(2) unfolding x_def
    by (simp_all add: of_int_less_iff [where 'a = rat, of i "2 ^ 53", simplified])
  define e where "e = ilog2 x"
  from ilog2_bounds [OF x(1)] have e: "2 powi e \<le> x" "x < 2 powi (e + 1)"
    by (simp_all add: e_def)
  have e_lo: "0 \<le> e"
  proof (rule ccontr)
    assume "\<not> 0 \<le> e"
    then have "e + 1 \<le> 0" by simp
    then have "(2::rat) powi (e + 1) \<le> 2 powi 0"
      by (intro power_int_increasing) simp_all
    with e(2) x(2) show False by simp
  qed
  have e_hi: "e \<le> 52"
  proof (rule ccontr)
    assume "\<not> e \<le> 52"
    then have "53 \<le> e" by simp
    then have "(2::rat) powi 53 \<le> 2 powi e"
      by (intro power_int_increasing) simp_all
    with e(1) x(3) show False by simp
  qed
  define k where "k = nat (52 - e)"
  define q where "q = (2::rat) powi (e - 52)"
  have q: "q = 1 / 2 ^ k"
    using e_hi by (simp add: q_def k_def power_int_def field_simps)
  have "x / q = of_int (i * 2 ^ k)" by (simp add: q x_def)
  then have n: "half_even (x / q) = i * 2 ^ k" by (simp only: half_even_int)
  have r: "of_int (half_even (x / q)) * q = x" by (simp only: n) (simp add: q x_def)
  have "x < 2 powi 1024" using x(3) by simp
  then show ?thesis
    using x(1) e_lo r
    by (simp add: round_double_def Let_def x_def [symmetric] e_def [symmetric] max_def
        q_def [symmetric])
qed

lemma round_double_zero [simp]: "round_double 0 = Finite 0"
  by (simp add: round_double_def)

lemma round_double_one [simp]: "round_double 1 = Finite 1"
  using round_double_int [of 1] by simp

lemma round_double_numeral:
  "(numeral k :: int) < 2 ^ 53 \<Longrightarrow> round_double (numeral k) = Finite (numeral k)"
  using round_double_int [of "numeral k"] by simp

lemma js_of_int_small:
  "\<bar>i\<bar> < 2 ^ 53 \<Longrightarrow> js_of_int i = Number (i < 0) (Finite (of_int \<bar>i\<bar>))"
  using round_double_int [of "\<bar>i\<bar>"] by (simp add: js_of_int_def)

text \<open>
  The scale of two ranges of at most 32 bits, and what comes of dividing the first range
  by the scale and of multiplying the second by it.
\<close>

lemma scale_near:
  fixes A B :: rat
  assumes A: "1 \<le> A" "A < 2 ^ 32" and B: "1 \<le> B" "B < 2 ^ 32"
  shows "\<exists>s. round_double (A / B) = Finite s \<and> 0 < s \<and>
             A / B * (1 - 1 / 2 ^ 53) \<le> s \<and> s \<le> A / B * (1 + 1 / 2 ^ 53)"
proof -
  have pos: "0 < A / B" using A B by simp
  have "1 / 2 ^ 32 \<le> A / B"
    using A B by (intro frac_le) simp_all
  moreover have "(2::rat) powi (- 1022) \<le> 1 / 2 ^ 32"
    by (simp add: power_int_def field_simps)
  ultimately have lo: "2 powi (- 1022) \<le> A / B" by linarith
  have "A / B \<le> 2 ^ 32 / 1"
    using A B by (intro frac_le) simp_all
  then have hi: "A / B < 2 powi 1023" by simp
  from round_double_near [OF lo hi] obtain s where
    s: "round_double (A / B) = Finite s" "A / B * (1 - 1 / 2 ^ 53) \<le> s"
      "s \<le> A / B * (1 + 1 / 2 ^ 53)" by blast
  have "0 < A / B * (1 - 1 / 2 ^ 53)" using pos by simp
  with s(2) have "0 < s" by linarith
  with s show ?thesis by blast
qed

lemma div_roundtrip:
  fixes A B :: rat
  assumes A: "1 \<le> A" "A < 2 ^ 32" and B: "1 \<le> B" "B < 2 ^ 32"
  shows "\<exists>s r. round_double (A / B) = Finite s \<and> s \<noteq> 0 \<and>
               round_double (A / s) = Finite r \<and> \<bar>r - B\<bar> \<le> B / 2 ^ 51"
proof -
  from scale_near [OF assms] obtain s where
    s: "round_double (A / B) = Finite s" "0 < s" "A / B * (1 - 1 / 2 ^ 53) \<le> s"
      "s \<le> A / B * (1 + 1 / 2 ^ 53)" by blast
  have Apos: "0 < A" and Bpos: "0 < B" using A B by simp_all
  have x_hi: "A / s \<le> B * (1 + 2 / 2 ^ 53)"
  proof -
    have "A \<le> s * (B * (1 + 2 / 2 ^ 53))"
    proof -
      have "A = A / B * (1 - 1 / 2 ^ 53) * (B * (2 ^ 53 / (2 ^ 53 - 1)))"
        using Bpos by simp
      also have "\<dots> \<le> s * (B * (2 ^ 53 / (2 ^ 53 - 1)))"
        using s(3) Bpos by (intro mult_right_mono) simp_all
      also have "\<dots> \<le> s * (B * (1 + 2 / 2 ^ 53))"
        using s(2) Bpos by (intro mult_left_mono) simp_all
      finally show ?thesis .
    qed
    then show ?thesis using s(2) by (simp add: pos_divide_le_eq mult.commute)
  qed
  have x_lo: "B * (1 - 1 / 2 ^ 53) \<le> A / s"
  proof -
    have "s * (B * (1 - 1 / 2 ^ 53)) \<le> A / B * (1 + 1 / 2 ^ 53) * (B * (1 - 1 / 2 ^ 53))"
      using s(4) Bpos by (intro mult_right_mono) simp_all
    also have "\<dots> = A * ((1 + 1 / 2 ^ 53) * (1 - 1 / 2 ^ 53))"
      using Bpos by simp
    also have "\<dots> \<le> A * 1"
      using Apos by (intro mult_left_mono) simp_all
    finally have "s * (B * (1 - 1 / 2 ^ 53)) \<le> A" by simp
    then show ?thesis using s(2) by (simp add: pos_le_divide_eq mult.commute)
  qed
  have "(2::rat) powi (- 1022) \<le> 1 / 2" by (simp add: power_int_def field_simps)
  moreover have "1 / 2 \<le> B * (1 - 1 / 2 ^ 53)" using B(1) by simp
  ultimately have lo: "2 powi (- 1022) \<le> A / s" using x_lo by linarith
  have "B * (1 + 2 / 2 ^ 53) \<le> B * 2" using Bpos by (intro mult_left_mono) simp_all
  also have "\<dots> < 2 ^ 32 * 2" using B(2) by simp
  finally have "B * (1 + 2 / 2 ^ 53) < 2 powi 1023" by simp
  with x_hi have hi: "A / s < 2 powi 1023" by linarith
  from round_double_near [OF lo hi] obtain r where
    r: "round_double (A / s) = Finite r" "A / s * (1 - 1 / 2 ^ 53) \<le> r"
      "r \<le> A / s * (1 + 1 / 2 ^ 53)" by blast
  have "r \<le> B * (1 + 2 / 2 ^ 53) * (1 + 1 / 2 ^ 53)"
    using r(3) x_hi by (meson mult_right_mono order_trans zero_le_numeral zero_le_power
        add_nonneg_nonneg zero_le_one zero_le_divide_iff)
  also have "\<dots> = B * ((1 + 2 / 2 ^ 53) * (1 + 1 / 2 ^ 53))" by simp
  also have "\<dots> \<le> B * (1 + 4 / 2 ^ 53)"
    using Bpos by (intro mult_left_mono) simp_all
  finally have r_hi: "r - B \<le> B / 2 ^ 51" by (simp add: algebra_simps)
  have "B * (1 - 4 / 2 ^ 53) \<le> B * ((1 - 1 / 2 ^ 53) * (1 - 1 / 2 ^ 53))"
    using Bpos by (intro mult_left_mono) simp_all
  also have "\<dots> = B * (1 - 1 / 2 ^ 53) * (1 - 1 / 2 ^ 53)" by simp
  also have "\<dots> \<le> A / s * (1 - 1 / 2 ^ 53)"
    using x_lo by (intro mult_right_mono) simp_all
  also have "\<dots> \<le> r" by (rule r(2))
  finally have r_lo: "B - r \<le> B / 2 ^ 51" by (simp add: algebra_simps)
  from r_hi r_lo have "\<bar>r - B\<bar> \<le> B / 2 ^ 51" by linarith
  with s r show ?thesis by blast
qed

lemma mul_roundtrip:
  fixes A B :: rat
  assumes A: "1 \<le> A" "A < 2 ^ 32" and B: "1 \<le> B" "B < 2 ^ 32"
  shows "\<exists>s r. round_double (A / B) = Finite s \<and> round_double (B * s) = Finite r \<and>
               \<bar>r - A\<bar> \<le> A / 2 ^ 51"
proof -
  from scale_near [OF assms] obtain s where
    s: "round_double (A / B) = Finite s" "0 < s" "A / B * (1 - 1 / 2 ^ 53) \<le> s"
      "s \<le> A / B * (1 + 1 / 2 ^ 53)" by blast
  have Apos: "0 < A" and Bpos: "0 < B" using A B by simp_all
  have x_lo: "A * (1 - 1 / 2 ^ 53) \<le> B * s"
  proof -
    have "A * (1 - 1 / 2 ^ 53) = B * (A / B * (1 - 1 / 2 ^ 53))" using Bpos by simp
    also have "\<dots> \<le> B * s" using s(3) Bpos by (intro mult_left_mono) simp_all
    finally show ?thesis .
  qed
  have x_hi: "B * s \<le> A * (1 + 1 / 2 ^ 53)"
  proof -
    have "B * s \<le> B * (A / B * (1 + 1 / 2 ^ 53))"
      using s(4) Bpos by (intro mult_left_mono) simp_all
    also have "\<dots> = A * (1 + 1 / 2 ^ 53)" using Bpos by simp
    finally show ?thesis .
  qed
  have "(2::rat) powi (- 1022) \<le> 1 / 2" by (simp add: power_int_def field_simps)
  moreover have "1 / 2 \<le> A * (1 - 1 / 2 ^ 53)" using A(1) by simp
  ultimately have lo: "2 powi (- 1022) \<le> B * s" using x_lo by linarith
  have "A * (1 + 1 / 2 ^ 53) \<le> A * 2" using Apos by (intro mult_left_mono) simp_all
  also have "\<dots> < 2 ^ 32 * 2" using A(2) by simp
  finally have "A * (1 + 1 / 2 ^ 53) < 2 powi 1023" by simp
  with x_hi have hi: "B * s < 2 powi 1023" by linarith
  from round_double_near [OF lo hi] obtain r where
    r: "round_double (B * s) = Finite r" "B * s * (1 - 1 / 2 ^ 53) \<le> r"
      "r \<le> B * s * (1 + 1 / 2 ^ 53)" by blast
  have "r \<le> A * (1 + 1 / 2 ^ 53) * (1 + 1 / 2 ^ 53)"
    using r(3) x_hi by (meson mult_right_mono order_trans zero_le_numeral zero_le_power
        add_nonneg_nonneg zero_le_one zero_le_divide_iff)
  also have "\<dots> = A * ((1 + 1 / 2 ^ 53) * (1 + 1 / 2 ^ 53))" by simp
  also have "\<dots> \<le> A * (1 + 4 / 2 ^ 53)"
    using Apos by (intro mult_left_mono) simp_all
  finally have r_hi: "r - A \<le> A / 2 ^ 51" by (simp add: algebra_simps)
  have "A * (1 - 4 / 2 ^ 53) \<le> A * ((1 - 1 / 2 ^ 53) * (1 - 1 / 2 ^ 53))"
    using Apos by (intro mult_left_mono) simp_all
  also have "\<dots> = A * (1 - 1 / 2 ^ 53) * (1 - 1 / 2 ^ 53)" by simp
  also have "\<dots> \<le> B * s * (1 - 1 / 2 ^ 53)"
    using x_lo by (intro mult_right_mono) simp_all
  also have "\<dots> \<le> r" by (rule r(2))
  finally have r_lo: "A - r \<le> A / 2 ^ 51" by (simp add: algebra_simps)
  from r_hi r_lo have "\<bar>r - A\<bar> \<le> A / 2 ^ 51" by linarith
  with s r show ?thesis by blast
qed

section \<open>Evaluating the model\<close>

lemmas example_defs = example_props_def example_textarea_def example_preview_def

lemmas run_defs = mount_def new_MDEditor_def defaultProps_def dflt_def render_def Let_def str_def
  batched_def componentDidMount_def handleChange_def emit_def or_empty_def truthy_str_def
  truthy_bool_def flush_def List.map_filter_def onCommand_def handleCommand_def setState_def
  js_of_int_small js_sub_int_def class_if_def

lemma example_mounted_eq:
  "example_mounted =
     \<lparr> props = defaultProps example_props,
       state = \<lparr> height = Some (HeightNumber (js_of_int 200)), preview = Some ''live'',
                 fullscreen = Some False, value' = Some [] \<rparr>,
       previewRef = Ref (Some example_preview),
       textareaRef = Ref (Some example_textarea),
       commandOrchestrator = Some (TextAreaCommandOrchestrator (Some 3)),
       leftScroll = False, pending = [], body_overflow = [],
       effects = [RenderHTML (Some []), OnChange 0 (Some [])] \<rparr>"
  unfolding example_mounted_def
  by (simp add: example_defs run_defs)

lemma example_previewing_eq:
  "example_previewing =
     \<lparr> props = defaultProps example_props,
       state = \<lparr> height = Some (HeightNumber (js_of_int 200)), preview = Some ''preview'',
                 fullscreen = Some False, value' = Some [] \<rparr>,
       previewRef = Ref (Some example_preview),
       textareaRef = Ref None,
       commandOrchestrator = Some (TextAreaCommandOrchestrator (Some 3)),
       leftScroll = False, pending = [], body_overflow = [],
       effects = [RenderHTML (Some []), OnChange 0 (Some []),
                  ExecuteCommand (TextAreaCommandOrchestrator (Some 3))
                    (ICommand ''preview'' (Some ''preview''))] \<rparr>"
  unfolding example_previewing_def
  by (simp add: example_mounted_eq detachRefs_def run_defs)

section \<open>Commands of the toolbar\<close>

text \<open>
  Claim C1, as the code has it. \<open>handleCommand\<close> has no early return: for a command
  whose \<open>keyCommand\<close> is \<open>preview\<close>, on a mounted component, the preview mode of the
  state becomes the value the command carries, nothing else of the state and nothing of
  the page changes, and the command is then handed to the orchestrator, once.
\<close>

theorem preview_command_delegates:
  assumes "keyCommand command = ''preview''"
    and "commandOrchestrator c = Some orch"
    and "pending c = []"
  shows "onCommand command c = Returned (final (onCommand command c)) \<and>
         state (final (onCommand command c)) = (state c)\<lparr>preview := command_value command\<rparr> \<and>
         effects (final (onCommand command c)) = effects c @ [ExecuteCommand orch command] \<and>
         body_overflow (final (onCommand command c)) = body_overflow c"
  using assms by (simp add: run_defs)

theorem preview_command_delegates_witness:
  "onCommand (ICommand ''preview'' (Some ''preview'')) example_mounted =
     Returned (final (onCommand (ICommand ''preview'' (Some ''preview'')) example_mounted)) \<and>
   state (final (onCommand (ICommand ''preview'' (Some ''preview'')) example_mounted)) =
     (state example_mounted)\<lparr>preview := Some ''preview''\<rparr> \<and>
   effects (final (onCommand (ICommand ''preview'' (Some ''preview'')) example_mounted)) =
     effects example_mounted @
       [ExecuteCommand (TextAreaCommandOrchestrator (Some 3))
          (ICommand ''preview'' (Some ''preview''))]"
  using preview_command_delegates [of "ICommand ''preview'' (Some ''preview'')" example_mounted
      "TextAreaCommandOrchestrator (Some 3)"]
  by (simp add: example_mounted_eq)

text \<open>
  Claim C1 as stated fails: after a click on the command \<open>preview\<close> with the value
  \<open>preview\<close> in the example editor, \<open>executeCommand\<close> has been called with that command.
\<close>

theorem preview_command_counterexample:
  "effects (final (onCommand (ICommand ''preview'' (Some ''preview'')) example_mounted)) =
     [RenderHTML (Some []), OnChange 0 (Some []),
      ExecuteCommand (TextAreaCommandOrchestrator (Some 3))
        (ICommand ''preview'' (Some ''preview''))]"
  by (simp add: example_mounted_eq run_defs)

text \<open>
  Claim C4, as the code has it. Two clicks on the command \<open>fullscreen\<close>, on a mounted
  component whose fullscreen flag is a boolean, leave the flag as it was. The overflow
  style of the page is not saved: it ends as \<open>initial\<close> when the flag was false and as
  \<open>hidden\<close> when it was true, so it is as before exactly when it had that value before.
\<close>

theorem fullscreen_twice:
  assumes "keyCommand command = ''fullscreen''"
    and "commandOrchestrator c = Some orch"
    and "pending c = []"
    and "fullscreen (state c) = Some b"
  shows "fullscreen (state (twice command c)) = Some b \<and>
         body_overflow (twice command c) = (if b then ''hidden'' else ''initial'') \<and>
         (body_overflow (twice command c) = body_overflow c) =
           (body_overflow c = (if b then ''hidden'' else ''initial''))"
  using assms by (auto simp add: twice_def run_defs)

theorem fullscreen_twice_witness:
  "fullscreen (state (twice (ICommand ''fullscreen'' None) example_mounted)) = Some False \<and>
   body_overflow (twice (ICommand ''fullscreen'' None) example_mounted) = ''initial''"
  using fullscreen_twice [of "ICommand ''fullscreen'' None" example_mounted
      "TextAreaCommandOrchestrator (Some 3)" False]
  by (simp add: example_mounted_eq)

text \<open>
  Claim C4 as stated fails: the page of the example editor has no overflow style, and
  after two clicks on \<open>fullscreen\<close> its overflow style is \<open>initial\<close>.
\<close>

theorem fullscreen_twice_counterexample:
  "body_overflow example_mounted = [] \<and>
   body_overflow (twice (ICommand ''fullscreen'' None) example_mounted) = ''initial''"
  by (simp add: example_mounted_eq twice_def run_defs)

section \<open>The drag bar\<close>

text \<open>
  Claim C8. Whatever height the drag bar reports, the component stores that number as
  the height of its state; \<open>minHeight\<close> and \<open>maxHeight\<close> play no part, and nothing else
  of the component changes.
\<close>

theorem dragBar_stores_reported_height:
  "pending c = [] \<Longrightarrow>
   onDrag newHeight c =
     Returned (c\<lparr>state := (state c)\<lparr>height := Some (HeightNumber newHeight)\<rparr>\<rparr>)"
  by (simp add: onDrag_def dragBar_onChange_def setState_def flush_def List.map_filter_def)

text \<open>The example editor has the default \<open>maxHeight\<close> of 1200; a report of 5000 is stored.\<close>

theorem dragBar_stores_reported_height_witness:
  "maxHeight (props example_mounted) = Some (js_of_int 1200) \<and>
   onDrag (js_of_int 5000) example_mounted =
     Returned (example_mounted
       \<lparr>state := (state example_mounted)\<lparr>height := Some (HeightNumber (js_of_int 5000))\<rparr>\<rparr>)"
  using dragBar_stores_reported_height [of example_mounted "js_of_int 5000"]
  by (simp add: example_mounted_eq defaultProps_def dflt_def example_props_def)

section \<open>The change pipeline\<close>

text \<open>
  Claim C10. \<open>handleChange\<close> is the only place where \<open>onChange\<close> is called; mounting,
  a new value prop and an edit all go through it. When it calls \<open>onChange\<close>, the
  argument is a string, never undefined: the empty string for an undefined or empty
  text, and the text itself otherwise.
\<close>

theorem handleChange_argument:
  "effects (final (handleChange mdStr c)) =
     effects c @
     (case current (previewRef c) of
        None \<Rightarrow> []
      | Some p \<Rightarrow>
          RenderHTML mdStr #
          (case onChange (props c) of
             None \<Rightarrow> []
           | Some cb \<Rightarrow>
               [OnChange cb (Some (if mdStr = None \<or> mdStr = Some [] then [] else the mdStr))]))"
  by (auto simp add: handleChange_def emit_def or_empty_def truthy_str_def Let_def
      split: option.splits)

text \<open>An edit in the text area is a call of \<open>handleChange\<close> and nothing more.\<close>

lemma onEdit_effects:
  "pending c = [] \<Longrightarrow>
   effects (final (onEdit mdStr c)) = effects (final (handleChange mdStr c))"
  by (auto simp add: onEdit_def run_defs split: option.splits)

text \<open>
  Claim C9. Mounting calls \<open>renderHTML\<close> once, with the initial value, and then
  \<open>onChange\<close>, if the props have one, once with the same string; the initial value is
  the empty string when the prop is undefined. Nothing else is called. This holds also
  when \<open>componentDidMount\<close> then fails to create the orchestrator.
\<close>

theorem mount_effects:
  "effects (final (mount p ta mp page_overflow)) =
     RenderHTML (Some (case value' p of None \<Rightarrow> [] | Some s \<Rightarrow> s)) #
     (case onChange p of
        None \<Rightarrow> []
      | Some cb \<Rightarrow> [OnChange cb (Some (case value' p of None \<Rightarrow> [] | Some s \<Rightarrow> s))])"
  by (auto simp add: run_defs split: option.splits)

text \<open>
  Claim C6. When a mounted component receives props whose value differs from the value
  of its current props, \<open>renderHTML\<close> is called once with the new value and then
  \<open>onChange\<close>, the one of the new props if they have one, once with the new value, which
  is a string; the value of the state is the new value.
\<close>

theorem value_prop_change:
  assumes "value' (defaultProps p) \<noteq> value' (props c)"
    and "current (previewRef c) = Some pv"
    and "pending c = []"
  shows "effects (final (receiveProps p c)) =
           effects c @
             RenderHTML (value' (defaultProps p)) #
             (case onChange p of
                None \<Rightarrow> []
              | Some cb \<Rightarrow> [OnChange cb (value' (defaultProps p))]) \<and>
         value' (defaultProps p) \<noteq> None \<and>
         value' (state (final (receiveProps p c))) = value' (defaultProps p)"
  using assms
  by (auto simp add: receiveProps_def UNSAFE_componentWillReceiveProps_def run_defs
      split: option.splits)

theorem value_prop_change_witness:
  "effects (final (receiveProps (example_props\<lparr>value' := Some ''# Title''\<rparr>) example_mounted)) =
     effects example_mounted @ [RenderHTML (Some ''# Title''), OnChange 0 (Some ''# Title'')] \<and>
   value' (state (final (receiveProps (example_props\<lparr>value' := Some ''# Title''\<rparr>)
     example_mounted))) = Some ''# Title''"
  using value_prop_change [of "example_props\<lparr>value' := Some ''# Title''\<rparr>" example_mounted
      example_preview]
  by (simp add: example_mounted_eq example_props_def defaultProps_def dflt_def)

section \<open>Scroll synchronisation\<close>

lemma handleScroll_editor:
  assumes "current (textareaRef c) = Some ta" and "warp ta = Some (Ref (Some textarea))"
    and "current (previewRef c) = Some pv" and "mdp pv = Some (Ref (Some preview_el))"
    and "leftScroll c"
  shows "handleScroll (node textarea) c =
           emit (SetScrollTop (node preview_el)
                   (js_div (scrollTop textarea)
                      (js_div (scrollable_range textarea) (scrollable_range preview_el)))) c"
  using assms by (simp add: handleScroll_def scrollable_range_def Let_def)

lemma handleScroll_preview:
  assumes "current (textareaRef c) = Some ta" and "warp ta = Some (Ref (Some textarea))"
    and "current (previewRef c) = Some pv" and "mdp pv = Some (Ref (Some preview_el))"
    and "\<not> leftScroll c"
  shows "handleScroll (node preview_el) c =
           emit (SetScrollTop (node textarea)
                   (js_mul (scrollTop preview_el)
                      (js_div (scrollable_range textarea) (scrollable_range preview_el)))) c"
  using assms by (simp add: handleScroll_def scrollable_range_def Let_def)

lemma handleScroll_no_ref:
  "current (textareaRef c) = None \<or> current (previewRef c) = None \<Longrightarrow>
   handleScroll e_target c = c"
  by (auto simp add: handleScroll_def split: option.splits)

text \<open>
  Dividing a range by the scale, and multiplying the other range by it, when neither
  range is zero and both have at most 32 bits: the result is the other range within
  rounding tolerance.
\<close>

lemma js_div_roundtrip:
  assumes "a \<noteq> 0" and "b \<noteq> 0" and "\<bar>a\<bar> < 2 ^ 32" and "\<bar>b\<bar> < 2 ^ 32"
  shows "close_to (js_div (js_of_int a) (js_div (js_of_int a) (js_of_int b))) b"
proof -
  define A B where "A = (of_int \<bar>a\<bar> :: rat)" and "B = (of_int \<bar>b\<bar> :: rat)"
  have "1 \<le> \<bar>a\<bar>" "1 \<le> \<bar>b\<bar>" using assms(1,2) by simp_all
  then have A: "1 \<le> A" and B: "1 \<le> B"
    unfolding A_def B_def by (simp_all only: of_int_1_le_iff)
  have A': "A < 2 ^ 32" and B': "B < 2 ^ 32"
    using assms(3,4) unfolding A_def B_def
    by (simp_all add: of_int_less_iff [where 'a = rat, of _ "2 ^ 32", simplified])
  have ja: "js_of_int a = Number (a < 0) (Finite A)"
    and jb: "js_of_int b = Number (b < 0) (Finite B)"
    using assms(3,4) by (simp_all add: js_of_int_small A_def B_def)
  from div_roundtrip [OF A A' B B'] obtain s r where
    sr: "round_double (A / B) = Finite s" "s \<noteq> 0" "round_double (A / s) = Finite r"
      "\<bar>r - B\<bar> \<le> B / 2 ^ 51" by blast
  have "B \<noteq> 0" using B by simp
  then have "js_div (js_of_int a) (js_div (js_of_int a) (js_of_int b)) =
               Number (b < 0) (Finite r)"
    using sr(1,2,3) by (auto simp add: ja jb)
  then show ?thesis using sr(4) by (simp add: close_to_def B_def)
qed

lemma js_mul_roundtrip:
  assumes "a \<noteq> 0" and "b \<noteq> 0" and "\<bar>a\<bar> < 2 ^ 32" and "\<bar>b\<bar> < 2 ^ 32"
  shows "close_to (js_mul (js_of_int b) (js_div (js_of_int a) (js_of_int b))) a"
proof -
  define A B where "A = (of_int \<bar>a\<bar> :: rat)" and "B = (of_int \<bar>b\<bar> :: rat)"
  have "1 \<le> \<bar>a\<bar>" "1 \<le> \<bar>b\<bar>" using assms(1,2) by simp_all
  then have A: "1 \<le> A" and B: "1 \<le> B"
    unfolding A_def B_def by (simp_all only: of_int_1_le_iff)
  have A': "A < 2 ^ 32" and B': "B < 2 ^ 32"
    using assms(3,4) unfolding A_def B_def
    by (simp_all add: of_int_less_iff [where 'a = rat, of _ "2 ^ 32", simplified])
  have ja: "js_of_int a = Number (a < 0) (Finite A)"
    and jb: "js_of_int b = Number (b < 0) (Finite B)"
    using assms(3,4) by (simp_all add: js_of_int_small A_def B_def)
  from mul_roundtrip [OF A A' B B'] obtain s r where
    sr: "round_double (A / B) = Finite s" "round_double (B * s) = Finite r"
      "\<bar>r - A\<bar> \<le> A / 2 ^ 51" by blast
  have "B \<noteq> 0" using B by simp
  then have "js_mul (js_of_int b) (js_div (js_of_int a) (js_of_int b)) =
               Number (a < 0) (Finite r)"
    using sr(1,2) by (auto simp add: ja jb)
  then show ?thesis using sr(3) by (simp add: close_to_def A_def)
qed

lemma long_difference:
  "is_long a \<Longrightarrow> is_long b \<Longrightarrow> \<bar>a - b\<bar> < 2 ^ 32"
  unfolding is_long_def by simp linarith

text \<open>
  A scale whose numerator is zero is a zero or NaN, and no quotient by it is finite; a
  scale whose denominator is zero is an infinity or NaN, and no product with it is finite.
\<close>

lemma js_of_int_zero: "js_of_int 0 = Number False (Finite 0)"
  by (simp add: js_of_int_def)

lemma div_by_zero_range_not_finite:
  "\<not> is_finite (js_div x (js_div (js_of_int 0) y))"
proof (cases x)
  case NaN
  then show ?thesis by (simp add: is_finite_def)
next
  case (Number s a)
  show ?thesis
  proof (cases y)
    case NaN
    then show ?thesis using Number by (simp add: is_finite_def js_of_int_zero)
  next
    case (Number t b)
    then show ?thesis using \<open>x = Number s a\<close>
      by (cases a; cases b) (auto simp add: is_finite_def js_of_int_zero)
  qed
qed

lemma mul_by_zero_range_not_finite:
  "\<not> is_finite (js_mul x (js_div y (js_of_int 0)))"
proof (cases x)
  case NaN
  then show ?thesis by (simp add: is_finite_def)
next
  case (Number s a)
  show ?thesis
  proof (cases y)
    case NaN
    then show ?thesis using Number by (simp add: is_finite_def js_of_int_zero)
  next
    case (Number t b)
    then show ?thesis using \<open>x = Number s a\<close>
      by (cases a; cases b) (auto simp add: is_finite_def js_of_int_zero)
  qed
qed

text \<open>
  Claim C3, as the code has it. With both panes in place and neither scrollable range
  (\<open>scrollHeight - offsetHeight\<close>) zero, the scale is the range of the editor divided by
  the range of the preview. A scroll event of the editor while the editor drives assigns
  the editor's offset divided by the scale to the preview; a scroll event of the preview
  while the preview drives assigns the preview's offset times the scale to the editor.
  So a driving pane whose offset is its range puts the other pane at its range within
  rounding tolerance, a relative error of at most \<open>1 / 2 ^ 51\<close>. The range is the
  maximum offset of a pane whose \<open>offsetHeight\<close> is its \<open>clientHeight\<close>: between two
  such panes, the one that drives at its maximum offset puts the other at its maximum
  offset within that tolerance.
\<close>

theorem scroll_sync_proportional:
  assumes "current (textareaRef c) = Some ta" and "warp ta = Some (Ref (Some textarea))"
    and "current (previewRef c) = Some pv" and "mdp pv = Some (Ref (Some preview_el))"
    and "scrollHeight textarea \<noteq> offsetHeight textarea"
    and "scrollHeight preview_el \<noteq> offsetHeight preview_el"
    and "is_long (scrollHeight textarea)" and "is_long (offsetHeight textarea)"
    and "is_long (scrollHeight preview_el)" and "is_long (offsetHeight preview_el)"
  shows "(leftScroll c \<longrightarrow>
            effects (handleScroll (node textarea) c) =
              effects c @ [SetScrollTop (node preview_el)
                 (js_div (scrollTop textarea)
                    (js_div (scrollable_range textarea) (scrollable_range preview_el)))]) \<and>
         (\<not> leftScroll c \<longrightarrow>
            effects (handleScroll (node preview_el) c) =
              effects c @ [SetScrollTop (node textarea)
                 (js_mul (scrollTop preview_el)
                    (js_div (scrollable_range textarea) (scrollable_range preview_el)))]) \<and>
         (leftScroll c \<and> scrollTop textarea = scrollable_range textarea \<longrightarrow>
            (\<exists>v. effects (handleScroll (node textarea) c) =
                   effects c @ [SetScrollTop (node preview_el) v] \<and>
                 close_to v (scrollHeight preview_el - offsetHeight preview_el))) \<and>
         (\<not> leftScroll c \<and> scrollTop preview_el = scrollable_range preview_el \<longrightarrow>
            (\<exists>v. effects (handleScroll (node preview_el) c) =
                   effects c @ [SetScrollTop (node textarea) v] \<and>
                 close_to v (scrollHeight textarea - offsetHeight textarea))) \<and>
         (leftScroll c \<and> offsetHeight textarea = clientHeight textarea \<and>
          offsetHeight preview_el = clientHeight preview_el \<and>
          scrollTop textarea = js_of_int (max_offset textarea) \<longrightarrow>
            (\<exists>v. effects (handleScroll (node textarea) c) =
                   effects c @ [SetScrollTop (node preview_el) v] \<and>
                 close_to v (max_offset preview_el))) \<and>
         (\<not> leftScroll c \<and> offsetHeight textarea = clientHeight textarea \<and>
          offsetHeight preview_el = clientHeight preview_el \<and>
          scrollTop preview_el = js_of_int (max_offset preview_el) \<longrightarrow>
            (\<exists>v. effects (handleScroll (node preview_el) c) =
                   effects c @ [SetScrollTop (node textarea) v] \<and>
                 close_to v (max_offset textarea)))"
proof -
  define a b where "a = scrollHeight textarea - offsetHeight textarea"
    and "b = scrollHeight preview_el - offsetHeight preview_el"
  have nz: "a \<noteq> 0" "b \<noteq> 0" using assms(5,6) by (simp_all add: a_def b_def)
  have small: "\<bar>a\<bar> < 2 ^ 32" "\<bar>b\<bar> < 2 ^ 32"
    unfolding a_def b_def
    using long_difference [OF assms(7,8)] long_difference [OF assms(9,10)] by simp_all
  have ranges: "scrollable_range textarea = js_of_int a"
    "scrollable_range preview_el = js_of_int b"
    by (simp_all add: scrollable_range_def js_sub_int_def a_def b_def)
  have max_t: "close_to (js_div (scrollable_range textarea)
                 (js_div (scrollable_range textarea) (scrollable_range preview_el))) b"
    unfolding ranges by (rule js_div_roundtrip [OF nz small])
  have max_p: "close_to (js_mul (scrollable_range preview_el)
                 (js_div (scrollable_range textarea) (scrollable_range preview_el))) a"
    unfolding ranges by (rule js_mul_roundtrip [OF nz small])
  have client_t: "offsetHeight textarea = clientHeight textarea \<Longrightarrow>
                  js_of_int (max_offset textarea) = scrollable_range textarea \<and>
                  max_offset textarea = a"
    by (simp add: max_offset_def ranges a_def)
  have client_p: "offsetHeight preview_el = clientHeight preview_el \<Longrightarrow>
                  js_of_int (max_offset preview_el) = scrollable_range preview_el \<and>
                  max_offset preview_el = b"
    by (simp add: max_offset_def ranges b_def)
  have ed: "leftScroll c \<Longrightarrow>
            effects (handleScroll (node textarea) c) =
              effects c @ [SetScrollTop (node preview_el)
                 (js_div (scrollTop textarea)
                    (js_div (scrollable_range textarea) (scrollable_range preview_el)))]"
    using handleScroll_editor [OF assms(1-4)] by (simp add: emit_def)
  have pr: "\<not> leftScroll c \<Longrightarrow>
            effects (handleScroll (node preview_el) c) =
              effects c @ [SetScrollTop (node textarea)
                 (js_mul (scrollTop preview_el)
                    (js_div (scrollable_range textarea) (scrollable_range preview_el)))]"
    using handleScroll_preview [OF assms(1-4)] by (simp add: emit_def)
  show ?thesis
  proof (intro conjI impI)
    assume "leftScroll c"
    then show "effects (handleScroll (node textarea) c) =
              effects c @ [SetScrollTop (node preview_el)
                 (js_div (scrollTop textarea)
                    (js_div (scrollable_range textarea) (scrollable_range preview_el)))]"
      by (rule ed)
  next
    assume "\<not> leftScroll c"
    then show "effects (handleScroll (node preview_el) c) =
              effects c @ [SetScrollTop (node textarea)
                 (js_mul (scrollTop preview_el)
                    (js_div (scrollable_range textarea) (scrollable_range preview_el)))]"
      by (rule pr)
  next
    assume "leftScroll c \<and> scrollTop textarea = scrollable_range textarea"
    then show "\<exists>v. effects (handleScroll (node textarea) c) =
                   effects c @ [SetScrollTop (node preview_el) v] \<and>
                 close_to v (scrollHeight preview_el - offsetHeight preview_el)"
      using ed max_t by (auto simp add: b_def)
  next
    assume "\<not> leftScroll c \<and> scrollTop preview_el = scrollable_range preview_el"
    then show "\<exists>v. effects (handleScroll (node preview_el) c) =
                   effects c @ [SetScrollTop (node textarea) v] \<and>
                 close_to v (scrollHeight textarea - offsetHeight textarea)"
      using pr max_p by (auto simp add: a_def)
  next
    assume "leftScroll c \<and> offsetHeight textarea = clientHeight textarea \<and>
          offsetHeight preview_el = clientHeight preview_el \<and>
          scrollTop textarea = js_of_int (max_offset textarea)"
    then show "\<exists>v. effects (handleScroll (node textarea) c) =
                   effects c @ [SetScrollTop (node preview_el) v] \<and>
                 close_to v (max_offset preview_el)"
      using ed max_t client_t client_p by auto
  next
    assume "\<not> leftScroll c \<and> offsetHeight textarea = clientHeight textarea \<and>
          offsetHeight preview_el = clientHeight preview_el \<and>
          scrollTop preview_el = js_of_int (max_offset preview_el)"
    then show "\<exists>v. effects (handleScroll (node preview_el) c) =
                   effects c @ [SetScrollTop (node textarea) v] \<and>
                 close_to v (max_offset textarea)"
      using pr max_p client_t client_p by auto
  qed
qed

text \<open>
  In the example editor both panes have no border and are scrolled to the end: the
  editor, driving, puts the preview at 300, its maximum offset, and the preview, driving,
  puts the editor at 600, its maximum offset.
\<close>

theorem scroll_sync_proportional_witness:
  "effects (handleScroll 1 (onMouseOver example_mounted)) =
     effects (onMouseOver example_mounted) @ [SetScrollTop 2 (js_of_int 300)] \<and>
   close_to (js_of_int 300) 300 \<and>
   effects (handleScroll 2 example_mounted) =
     effects example_mounted @ [SetScrollTop 1 (js_of_int 600)] \<and>
   close_to (js_of_int 600) 600"
  using scroll_sync_proportional [of "onMouseOver example_mounted" example_textarea
      "\<lparr> node = 1, scrollHeight = 800, offsetHeight = 200,
          clientHeight = 200, scrollTop = js_of_int 600 \<rparr>"
      example_preview
      "\<lparr> node = 2, scrollHeight = 500, offsetHeight = 200,
          clientHeight = 200, scrollTop = js_of_int 300 \<rparr>"]
    scroll_sync_proportional [of example_mounted example_textarea
      "\<lparr> node = 1, scrollHeight = 800, offsetHeight = 200,
          clientHeight = 200, scrollTop = js_of_int 600 \<rparr>"
      example_preview
      "\<lparr> node = 2, scrollHeight = 500, offsetHeight = 200,
          clientHeight = 200, scrollTop = js_of_int 300 \<rparr>"]
  by (simp add: example_mounted_eq onMouseOver_def example_defs scrollable_range_def
      js_sub_int_def js_of_int_small round_double_numeral close_to_def is_long_def)

text \<open>
  Claim C3 as stated fails. The text area of the example has no border and is at its
  maximum offset, 596; the preview has borders of one pixel, ranges of 596 and 298 give
  the scale 2, and the preview is put at 298, two pixels short of its maximum offset 300.
\<close>

theorem scroll_sync_proportional_counterexample:
  "scrollTop scrolled_warp = js_of_int (max_offset scrolled_warp) \<and>
   max_offset bordered_mdp = 300 \<and>
   effects (handleScroll 1 example_bordered_preview) =
     [RenderHTML (Some []), OnChange 0 (Some []), SetScrollTop 2 (Number False (Finite 298))] \<and>
   \<not> close_to (Number False (Finite 298)) (max_offset bordered_mdp)"
  by (simp add: example_bordered_preview_def onMouseOver_def scrolled_warp_def bordered_mdp_def
      example_props_def run_defs handleScroll_def max_offset_def close_to_def
      round_double_numeral)

text \<open>
  Rounding is there: with ranges of 1 and 49 the scale is the double nearest to 1 / 49,
  and the text area at its range 1 puts the preview at 49.00000000000001, which is
  within the tolerance of 49.
\<close>

lemma scale_1_49:
  "round_double (1 / 49) = Finite (5882252574524729 / 288230376151711744)"
  by code_simp

lemma quotient_by_scale_1_49:
  "round_double (1 / (5882252574524729 / 288230376151711744)) =
     Finite (6896136929411073 / 140737488355328)"
  by code_simp

lemma rounding_example:
  "effects (handleScroll 1 example_short) =
     [RenderHTML (Some []), OnChange 0 (Some []),
      SetScrollTop 2 (Number False (Finite (6896136929411073 / 140737488355328)))] \<and>
   close_to (Number False (Finite (6896136929411073 / 140737488355328))) 49"
  using scale_1_49 quotient_by_scale_1_49
  by (simp add: example_short_def onMouseOver_def short_warp_def short_mdp_def
      example_props_def run_defs handleScroll_def close_to_def)

text \<open>
  Claim C2, as the code has it. \<open>handleScroll\<close> does not test the ranges: with both
  panes in place, a scroll event of the driving pane assigns the computed offset to the
  other pane whatever the ranges are. When the range of the driving pane is zero, the
  value assigned is not a finite number: it is NaN or an infinity.
\<close>

theorem scroll_sync_unguarded:
  assumes "current (textareaRef c) = Some ta" and "warp ta = Some (Ref (Some textarea))"
    and "current (previewRef c) = Some pv" and "mdp pv = Some (Ref (Some preview_el))"
  shows "(leftScroll c \<longrightarrow>
            effects (handleScroll (node textarea) c) =
              effects c @ [SetScrollTop (node preview_el)
                 (js_div (scrollTop textarea)
                    (js_div (scrollable_range textarea) (scrollable_range preview_el)))] \<and>
            (scrollHeight textarea = offsetHeight textarea \<longrightarrow>
               \<not> is_finite (js_div (scrollTop textarea)
                    (js_div (scrollable_range textarea) (scrollable_range preview_el))))) \<and>
         (\<not> leftScroll c \<longrightarrow>
            effects (handleScroll (node preview_el) c) =
              effects c @ [SetScrollTop (node textarea)
                 (js_mul (scrollTop preview_el)
                    (js_div (scrollable_range textarea) (scrollable_range preview_el)))] \<and>
            (scrollHeight preview_el = offsetHeight preview_el \<longrightarrow>
               \<not> is_finite (js_mul (scrollTop preview_el)
                    (js_div (scrollable_range textarea) (scrollable_range preview_el)))))"
proof -
  have zero_t: "scrollHeight textarea = offsetHeight textarea \<Longrightarrow>
                scrollable_range textarea = js_of_int 0"
    by (simp add: scrollable_range_def js_sub_int_def)
  have zero_p: "scrollHeight preview_el = offsetHeight preview_el \<Longrightarrow>
                scrollable_range preview_el = js_of_int 0"
    by (simp add: scrollable_range_def js_sub_int_def)
  show ?thesis
    using handleScroll_editor [OF assms] handleScroll_preview [OF assms]
      div_by_zero_range_not_finite [of "scrollTop textarea" "scrollable_range preview_el"]
      mul_by_zero_range_not_finite [of "scrollTop preview_el" "scrollable_range textarea"]
    by (auto simp add: emit_def zero_t zero_p)
qed

theorem scroll_sync_unguarded_witness:
  "effects (handleScroll 1 example_bordered) =
     effects example_bordered @ [SetScrollTop 2 (Number False Infinity)] \<and>
   \<not> is_finite (Number False Infinity)"
  using scroll_sync_unguarded [of example_bordered bordered_textarea
      "\<lparr> node = 1, scrollHeight = 102, offsetHeight = 102,
          clientHeight = 100, scrollTop = js_of_int 2 \<rparr>"
      example_preview
      "\<lparr> node = 2, scrollHeight = 500, offsetHeight = 200,
          clientHeight = 200, scrollTop = js_of_int 300 \<rparr>"]
  by (simp add: example_bordered_def onMouseOver_def bordered_textarea_def example_defs run_defs
      scrollable_range_def)

text \<open>
  Claim C2 as stated fails: the range of the bordered text area is zero, and its scroll
  event assigns the positive infinity to \<open>scrollTop\<close> of the preview.
\<close>

theorem scroll_sync_unguarded_counterexample:
  "scrollable_range \<lparr> node = 1, scrollHeight = 102, offsetHeight = 102, clientHeight = 100,
                      scrollTop = js_of_int 2 \<rparr> = Number False (Finite 0) \<and>
   effects (handleScroll 1 example_bordered) =
     [RenderHTML (Some []), OnChange 0 (Some []), SetScrollTop 2 (Number False Infinity)]"
  by (simp add: example_bordered_def onMouseOver_def bordered_textarea_def example_defs run_defs
      handleScroll_def scrollable_range_def)

section \<open>Missing refs\<close>

text \<open>
  Claim C5, as the code has it. While the ref of the text area or the ref of the preview
  is null, \<open>handleScroll\<close> returns at once and changes nothing. \<open>handleCommand\<close> does
  not look at the refs: on a component that has its orchestrator it hands the command
  to the orchestrator, and before that it sets the preview mode for the command
  \<open>preview\<close>, and toggles the fullscreen flag and sets the overflow style of the page
  for the command \<open>fullscreen\<close>.
\<close>

theorem missing_refs:
  assumes "current (textareaRef c) = None \<or> current (previewRef c) = None"
  shows "handleScroll e_target c = c \<and>
         (commandOrchestrator c = Some orch \<and> pending c = [] \<longrightarrow>
            effects (final (onCommand command c)) = effects c @ [ExecuteCommand orch command] \<and>
            (keyCommand command = ''preview'' \<longrightarrow>
               preview (state (final (onCommand command c))) = command_value command) \<and>
            (keyCommand command = ''fullscreen'' \<longrightarrow>
               fullscreen (state (final (onCommand command c))) =
                 Some (\<not> truthy_bool (fullscreen (state c))) \<and>
               body_overflow (final (onCommand command c)) =
                 (if truthy_bool (fullscreen (state c)) then ''initial'' else ''hidden'')))"
  using handleScroll_no_ref [OF assms]
  by (simp add: onCommand_def handleCommand_def batched_def flush_def setState_def emit_def
      List.map_filter_def Let_def)

theorem missing_refs_witness:
  "handleScroll 2 example_previewing = example_previewing \<and>
   effects (final (onCommand (ICommand ''fullscreen'' None) example_previewing)) =
     effects example_previewing @
       [ExecuteCommand (TextAreaCommandOrchestrator (Some 3)) (ICommand ''fullscreen'' None)] \<and>
   fullscreen (state (final (onCommand (ICommand ''fullscreen'' None) example_previewing))) =
     Some True \<and>
   body_overflow (final (onCommand (ICommand ''fullscreen'' None) example_previewing)) =
     ''hidden''"
  using missing_refs [of example_previewing 2 "TextAreaCommandOrchestrator (Some 3)"
      "ICommand ''fullscreen'' None"]
  by (simp add: example_previewing_eq truthy_bool_def)

text \<open>
  Claim C5 as stated fails: in the mode \<open>preview\<close> the ref of the text area is null,
  and a click on \<open>fullscreen\<close> changes the flag and the overflow style of the page and
  calls the orchestrator.
\<close>

theorem missing_refs_counterexample:
  "current (textareaRef example_previewing) = None \<and>
   fullscreen (state example_previewing) = Some False \<and>
   body_overflow example_previewing = [] \<and>
   fullscreen (state (final (onCommand (ICommand ''fullscreen'' None) example_previewing))) =
     Some True \<and>
   body_overflow (final (onCommand (ICommand ''fullscreen'' None) example_previewing)) =
     ''hidden'' \<and>
   effects (final (onCommand (ICommand ''fullscreen'' None) example_previewing)) =
     effects example_previewing @
       [ExecuteCommand (TextAreaCommandOrchestrator (Some 3)) (ICommand ''fullscreen'' None)]"
  by (simp add: example_previewing_eq run_defs)

text \<open>
  At mount the text area is not tested for either: a component whose initial mode is
  \<open>preview\<close> renders no text area, and \<open>componentDidMount\<close> throws a TypeError
  after it has called \<open>handleChange\<close>, so no orchestrator is created.
\<close>

lemma mount_in_preview_mode_throws:
  "preview p = Some ''preview'' \<Longrightarrow>
   mount p ta mp page_overflow = Threw TypeError (final (mount p ta mp page_overflow)) \<and>
   commandOrchestrator (final (mount p ta mp page_overflow)) = None"
  by (simp add: run_defs split: option.splits)

section \<open>What is rendered\<close>

text \<open>
  The mode of the state is the \<open>preview\<close> prop, \<open>live\<close> by default, at mount, and
  again whenever the parent changes that prop.
\<close>

lemma mount_preview_state:
  "preview (state (final (mount p ta mp page_overflow))) =
     Some (case preview p of None \<Rightarrow> ''live'' | Some m \<Rightarrow> m)"
  by (auto simp add: run_defs split: option.splits)

lemma receiveProps_preview_state:
  "preview (defaultProps p) \<noteq> preview (props c) \<Longrightarrow> pending c = [] \<Longrightarrow>
   preview (state (final (receiveProps p c))) = preview (defaultProps p)"
  by (auto simp add: receiveProps_def UNSAFE_componentWillReceiveProps_def run_defs
      split: option.splits)

text \<open>
  What \<open>render\<close> mounts: the preview in every mode, the text area in the modes \<open>edit\<close>
  and \<open>live\<close> and not in the mode \<open>preview\<close>; the root element has the class made
  of the prefix, \<open>-show-\<close> and the mode, for the stylesheet.
\<close>

lemma render_mounts:
  "(preview (state c) = Some ''edit'' \<longrightarrow>
      has_TextArea (render c) \<and> has_MarkdownPreview (render c) \<and>
      str (prefixCls (props c)) @ ''-show-edit'' \<in> set (cls (render c))) \<and>
   (preview (state c) = Some ''live'' \<longrightarrow>
      has_TextArea (render c) \<and> has_MarkdownPreview (render c) \<and>
      str (prefixCls (props c)) @ ''-show-live'' \<in> set (cls (render c))) \<and>
   (preview (state c) = Some ''preview'' \<longrightarrow>
      \<not> has_TextArea (render c) \<and> has_MarkdownPreview (render c) \<and>
      str (prefixCls (props c)) @ ''-show-preview'' \<in> set (cls (render c)))"
  by (simp add: render_def Let_def str_def class_if_def truthy_str_def)

text \<open>
  Claim C7 says that a component whose \<open>preview\<close> prop is set to \<open>preview\<close> renders
  the preview pane alone. A component that is given that prop from the start does not
  get there: its first render mounts no text area, the ref of the text area stays null,
  and \<open>componentDidMount\<close> throws a TypeError where it reads
  \<open>this.textarea.current!.text\<close>, after \<open>handleChange\<close> and before any orchestrator
  exists. (\<open>handleScroll\<close> tests the same ref before it reads it.)
\<close>

theorem initial_preview_mode_fails:
  "example_initial_preview = Threw TypeError (final example_initial_preview) \<and>
   preview (state (final example_initial_preview)) = Some ''preview'' \<and>
   \<not> has_TextArea (render (final example_initial_preview)) \<and>
   current (textareaRef (final example_initial_preview)) = None \<and>
   commandOrchestrator (final example_initial_preview) = None \<and>
   effects (final example_initial_preview) = [RenderHTML (Some []), OnChange 0 (Some [])]"
  by (simp add: example_initial_preview_def example_defs run_defs)

end
